theory Spec2Isabelle
  imports Complex_Main
begin

section \<open>Errors of the two scripts\<close>

text \<open>
  Every exception the modelled code can raise is a value. \<open>CalledProcessError\<close> is what
  \<open>subprocess.run(..., check=True)\<close> raises on a non-zero exit status, \<open>SystemExit n\<close> is
  \<open>sys.exit(n)\<close>, \<open>IndexError\<close> is an out-of-range list index.
  \<open>TimeoutError instance timeout\<close> stands for the message
  \<open>Instance <instance> not ready after <timeout> seconds\<close>.
\<close>

datatype error =
    CalledProcessError
  | RuntimeError string
  | ValueError string
  | IndexError
  | SystemExit nat
  | TimeoutError string int

section \<open>Names derived from instance identifiers\<close>

subsection \<open>setup\_oracle.py: \<open>parse_instance_number\<close>, \<open>get_cdb_diskgroup_name\<close>, \<open>get_db_name\<close>\<close>

definition is_digit :: "char \<Rightarrow> bool" where
  "is_digit c = (c \<in> set ''0123456789'')"

text \<open>
  \<open>re.match(r"ora-(\d+)", instance)\<close> anchors at the start only: the literal prefix
  \<open>ora-\<close>, then the longest non-empty run of digits, which is group 1. Strings are byte
  strings here, so \<open>\d\<close> is read as the ASCII digits.
\<close>

definition parse_instance_number :: "string \<Rightarrow> error + string" where
  "parse_instance_number instance =
     (let num = takeWhile is_digit (drop 4 instance)
      in if take 4 instance = ''ora-'' \<and> num \<noteq> []
         then Inr num
         else Inl (ValueError (''Instance name '' @ [CHR 0x27] @ instance @ [CHR 0x27]
                 @ '' must match pattern 'ora-<number>'' @ [CHR 0x27])))"

definition get_cdb_diskgroup_name :: "string \<Rightarrow> error + string" where
  "get_cdb_diskgroup_name instance =
     (case parse_instance_number instance of
        Inl e \<Rightarrow> Inl e
      | Inr num \<Rightarrow> Inr (''DGORA'' @ num))"

definition get_db_name :: "string \<Rightarrow> error + string" where
  "get_db_name instance =
     (case parse_instance_number instance of
        Inl e \<Rightarrow> Inl e
      | Inr num \<Rightarrow> Inr (''ORA'' @ num))"

subsection \<open>setup\_dataguard.py: the derivation inside \<open>main\<close>\<close>

text \<open>\<open>s.split(sep)\<close> for a one-character separator; \<open>cur\<close> holds the current piece reversed.\<close>

primrec split_acc :: "char \<Rightarrow> string \<Rightarrow> string \<Rightarrow> string list" where
  "split_acc sep cur [] = [rev cur]"
| "split_acc sep cur (x # xs) =
     (if x = sep then rev cur # split_acc sep [] xs else split_acc sep (x # cur) xs)"

definition py_split :: "char \<Rightarrow> string \<Rightarrow> string list" where
  "py_split sep s = split_acc sep [] s"

text \<open>\<open>xs[1]\<close>: raises \<open>IndexError\<close> when the list has fewer than two elements.\<close>

definition index1 :: "'a list \<Rightarrow> error + 'a" where
  "index1 xs = (case xs of _ # y # _ \<Rightarrow> Inr y | _ \<Rightarrow> Inl IndexError)"

record resolved =
  res_primary_num :: string
  res_standby_num :: string
  res_db_name :: string
  res_primary_db_unique_name :: string
  res_standby_db_unique_name :: string
  res_primary_diskgroup :: string
  res_standby_diskgroup :: string

text \<open>
  Lines 950-961 of \<open>main\<close>: the two numbers come from \<open>split("-")[1]\<close>, the primary's
  first; every name is a fixed prefix followed by a number.
\<close>

definition derive_names :: "string \<Rightarrow> string \<Rightarrow> error + resolved" where
  "derive_names primary standby =
     (case index1 (py_split (CHR ''-'') primary) of
        Inl e \<Rightarrow> Inl e
      | Inr primary_num \<Rightarrow>
         (case index1 (py_split (CHR ''-'') standby) of
            Inl e \<Rightarrow> Inl e
          | Inr standby_num \<Rightarrow>
              Inr \<lparr> res_primary_num = primary_num,
                    res_standby_num = standby_num,
                    res_db_name = ''ORA'' @ primary_num,
                    res_primary_db_unique_name = ''ORA'' @ primary_num,
                    res_standby_db_unique_name = ''ORA'' @ primary_num @ ''_STBY'',
                    res_primary_diskgroup = ''DGORA'' @ primary_num,
                    res_standby_diskgroup = ''DGORA'' @ standby_num \<rparr>))"

section \<open>The entry point of setup\_dataguard.py\<close>

record args =
  arg_primary :: string
  arg_standby :: string
  arg_project :: "string option"
  arg_zone :: "string option"
  arg_skip_primary_config :: bool
  arg_skip_duplication :: bool
  arg_sys_password :: string

text \<open>
  What \<open>main\<close> does outside the process, in order. \<open>Gcloud_config\<close> reads the local
  gcloud configuration, \<open>Describe_ip\<close> is the read-only provider query of
  \<open>get_instance_ip\<close>, and \<open>Stage f xs\<close> is the call of the stage function \<open>f\<close> with the
  arguments \<open>xs\<close>; every stage function sends commands to a remote instance.
\<close>

datatype call =
    Gcloud_config string
  | Describe_ip string string string
  | Stage string "string list"

fun is_remote_mutation :: "call \<Rightarrow> bool" where
  "is_remote_mutation (Stage f xs) = True"
| "is_remote_mutation (Gcloud_config key) = False"
| "is_remote_mutation (Describe_ip instance zone project) = False"

text \<open>
  The surroundings of \<open>main\<close>: the answers of the local gcloud configuration and of the
  provider, and for each stage call the exception it raises, if any.
\<close>

record env =
  gcloud_config :: "string \<Rightarrow> error + string"
  instance_ip :: "string \<Rightarrow> string \<Rightarrow> string \<Rightarrow> error + string"
  stage_raises :: "call \<Rightarrow> error option"

text \<open>\<open>args.x or get_gcloud_config(key)\<close>: the configuration is read only when the
  argument is \<open>None\<close> or empty.\<close>

definition arg_or_config :: "env \<Rightarrow> string option \<Rightarrow> string \<Rightarrow> (error + string) \<times> call list" where
  "arg_or_config e a key =
     (case a of
        Some v \<Rightarrow> if v \<noteq> [] then (Inr v, []) else (gcloud_config e key, [Gcloud_config key])
      | None \<Rightarrow> (gcloud_config e key, [Gcloud_config key]))"

text \<open>The calls of \<open>main\<close> after the names and addresses are known, in source order.\<close>

definition main_stages ::
  "args \<Rightarrow> string \<Rightarrow> string \<Rightarrow> resolved \<Rightarrow> string \<Rightarrow> string \<Rightarrow> call list" where
  "main_stages a zone project r primary_ip standby_ip =
     (let primary = arg_primary a; standby = arg_standby a;
          db_name = res_db_name r;
          primary_db_unique_name = res_primary_db_unique_name r;
          standby_db_unique_name = res_standby_db_unique_name r;
          primary_diskgroup = res_primary_diskgroup r;
          standby_diskgroup = res_standby_diskgroup r
      in
      (if \<not> arg_skip_primary_config a then
         map (\<lambda>inst. Stage ''configure_bash_profiles'' [inst, zone, project]) [primary, standby]
         @ map (\<lambda>inst. Stage ''configure_tns_entries''
                  [inst, zone, project, db_name, primary_db_unique_name,
                   standby_db_unique_name, primary_ip, standby_ip]) [primary, standby]
         @ [Stage ''configure_static_listener''
              [primary, zone, project, db_name, primary_db_unique_name],
            Stage ''configure_static_listener''
              [standby, zone, project, db_name, standby_db_unique_name],
            Stage ''configure_primary_for_dataguard''
              [primary, zone, project, db_name, primary_db_unique_name,
               standby_db_unique_name, primary_ip, standby_ip],
            Stage ''setup_password_file''
              [primary, standby, zone, project, db_name, arg_sys_password a]]
       else [])
      @ (if \<not> arg_skip_duplication a then
           [Stage ''remove_standby_database''
              [standby, zone, project, ''ORA'' @ res_standby_num r, standby_diskgroup],
            Stage ''create_standby_pfile''
              [standby, zone, project, db_name, standby_db_unique_name,
               primary_db_unique_name, standby_diskgroup],
            Stage ''start_standby_nomount'' [standby, zone, project, db_name],
            Stage ''duplicate_database''
              [primary, standby, zone, project, db_name, primary_db_unique_name,
               standby_db_unique_name, primary_diskgroup, standby_diskgroup,
               primary_ip, standby_ip, arg_sys_password a],
            Stage ''sync_password_file_after_duplication''
              [primary, standby, zone, project, db_name],
            Stage ''fix_standby_redo_logs''
              [standby, zone, project, db_name, standby_diskgroup],
            Stage ''register_standby_with_cluster''
              [standby, zone, project, db_name, standby_db_unique_name, standby_diskgroup]]
         else [])
      @ [Stage ''start_managed_recovery'' [standby, zone, project, db_name],
         Stage ''enable_log_shipping''
           [primary, zone, project, standby_ip, db_name, standby_db_unique_name],
         Stage ''validate_dataguard''
           [primary, standby, zone, project, db_name, primary_db_unique_name,
            standby_db_unique_name]])"

text \<open>Stages run in order; the first exception ends the run.\<close>

fun run_stages :: "env \<Rightarrow> call list \<Rightarrow> (error + unit) \<times> call list" where
  "run_stages e [] = (Inr (), [])"
| "run_stages e (c # cs) =
     (case stage_raises e c of
        Some err \<Rightarrow> (Inl err, [c])
      | None \<Rightarrow> (case run_stages e cs of (res, tr) \<Rightarrow> (res, c # tr)))"

text \<open>
  \<open>main\<close>: project and zone first (\<open>sys.exit(1)\<close> when either is empty), then the names,
  then the two addresses, then the stages. The result is the outcome and the calls made.
\<close>

definition main :: "env \<Rightarrow> args \<Rightarrow> (error + unit) \<times> call list" where
  "main e a =
     (case arg_or_config e (arg_project a) ''project'' of
        (Inl err, t1) \<Rightarrow> (Inl err, t1)
      | (Inr project, t1) \<Rightarrow>
     (case arg_or_config e (arg_zone a) ''compute/zone'' of
        (Inl err, t2) \<Rightarrow> (Inl err, t1 @ t2)
      | (Inr zone, t2) \<Rightarrow>
     if project = [] then (Inl (SystemExit 1), t1 @ t2)
     else if zone = [] then (Inl (SystemExit 1), t1 @ t2)
     else
     (case derive_names (arg_primary a) (arg_standby a) of
        Inl err \<Rightarrow> (Inl err, t1 @ t2)
      | Inr r \<Rightarrow>
     (case instance_ip e (arg_primary a) zone project of
        Inl err \<Rightarrow> (Inl err, t1 @ t2 @ [Describe_ip (arg_primary a) zone project])
      | Inr primary_ip \<Rightarrow>
     (case instance_ip e (arg_standby a) zone project of
        Inl err \<Rightarrow> (Inl err, t1 @ t2 @ [Describe_ip (arg_primary a) zone project,
                                          Describe_ip (arg_standby a) zone project])
      | Inr standby_ip \<Rightarrow>
     (case run_stages e (main_stages a zone project r primary_ip standby_ip) of
        (res, t3) \<Rightarrow> (res, t1 @ t2 @ [Describe_ip (arg_primary a) zone project,
                                       Describe_ip (arg_standby a) zone project] @ t3)))))))"

text \<open>The five names the resolution hands to the stages, in the order database name,
  primary unique name, standby unique name, primary disk group, standby disk group.\<close>

definition resolved_names ::
  "string \<Rightarrow> string \<Rightarrow> error + (string \<times> string \<times> string \<times> string \<times> string)" where
  "resolved_names primary standby =
     (case derive_names primary standby of
        Inl e \<Rightarrow> Inl e
      | Inr r \<Rightarrow> Inr (res_db_name r, res_primary_db_unique_name r,
                       res_standby_db_unique_name r, res_primary_diskgroup r,
                       res_standby_diskgroup r))"

text \<open>A surrounding in which every query answers and no stage raises, and a command line
  whose primary identifier does not follow \<open>ora-<number>\<close>.\<close>

definition env_all_ok :: env where
  "env_all_ok = \<lparr> gcloud_config = (\<lambda>key. Inr []),
                   instance_ip = (\<lambda>instance zone project. Inr ''10.0.0.5''),
                   stage_raises = (\<lambda>c. None) \<rparr>"

definition args_db_x :: args where
  "args_db_x = \<lparr> arg_primary = ''db-x'', arg_standby = ''ora-2'',
                  arg_project = Some ''p'', arg_zone = Some ''z'',
                  arg_skip_primary_config = False, arg_skip_duplication = False,
                  arg_sys_password = ''pw'' \<rparr>"

section \<open>Command payloads\<close>

definition newline :: char where
  "newline = CHR 0x0A"

text \<open>\<open>"\n".join(ls)\<close>: a triple-quoted payload is its lines joined by newlines.\<close>

fun join_lines :: "string list \<Rightarrow> string" where
  "join_lines [] = []"
| "join_lines [l] = l"
| "join_lines (l # ls) = l @ newline # join_lines ls"

text \<open>A remote command as \<open>gcloud_ssh\<close> sends it: instance, zone, project, command text.\<close>

datatype ssh_call = Gcloud_ssh string string string string

subsection \<open>\<open>enable_log_shipping\<close>\<close>

text \<open>The lines of the f-string of \<open>enable_log_shipping\<close>; the text opens and closes with
  a newline, hence the empty first and last line.\<close>

definition enable_log_shipping_commands :: "string \<Rightarrow> string \<Rightarrow> string \<Rightarrow> string list" where
  "enable_log_shipping_commands standby_ip db_name standby_db_unique_name =
     (let standby_ezconnect = ''//'' @ standby_ip @ '':1521/'' @ db_name
      in [
        [],
        ''sudo su - oracle <<'EOF'' @ [CHR 0x27],
        ''sqlplus -s / as sysdba <<'SQLEND'' @ [CHR 0x27],
        ''-- Configure log archive dest 2 using EZConnect with automatic retry'',
        ''-- REOPEN=60: Retry failed connections every 60 seconds'',
        ''-- MAX_FAILURE=0: Unlimited retries (0 means never give up)'',
        ''ALTER SYSTEM SET LOG_ARCHIVE_DEST_2='SERVICE='' @ standby_ezconnect
          @ '' ASYNC VALID_FOR=(ONLINE_LOGFILES,PRIMARY_ROLE) DB_UNIQUE_NAME=''
          @ standby_db_unique_name @ '' REOPEN=60 MAX_FAILURE=0' SCOPE=BOTH;'',
        ''ALTER SYSTEM SET LOG_ARCHIVE_DEST_STATE_2=ENABLE SCOPE=BOTH;'',
        ''ALTER SYSTEM SET LOG_ARCHIVE_CONFIG='DG_CONFIG=(ORA1,'' @ standby_db_unique_name
          @ '')' SCOPE=BOTH;'',
        ''ALTER SYSTEM SWITCH LOGFILE;'',
        [],
        ''-- Verify log shipping status'',
        ''SELECT DEST_ID, STATUS, DESTINATION FROM V$ARCHIVE_DEST WHERE DEST_ID <= 2;'',
        ''SQLEND'',
        ''EOF'',
        []])"

definition enable_log_shipping ::
  "string \<Rightarrow> string \<Rightarrow> string \<Rightarrow> string \<Rightarrow> string \<Rightarrow> string \<Rightarrow> ssh_call" where
  "enable_log_shipping instance zone project standby_ip db_name standby_db_unique_name =
     Gcloud_ssh instance zone project
       (join_lines (enable_log_shipping_commands standby_ip db_name standby_db_unique_name))"


section \<open>Remote hosts, the control host and the three transports\<close>

text \<open>
  The stages act on the two instances through \<open>gcloud compute ssh\<close> and
  \<open>gcloud compute scp\<close> only. A host is the part of an instance the credential stages
  touch: its files (path to content), the \<open>ORACLE_HOME\<close> of its oracle account, the SYS
  password of its database, and the password file the running database loaded at its
  last restart together with the number of restarts. The login account's
  \<open>.bash_profile\<close> sets the same \<open>ORACLE_HOME\<close>. Ownership and permission bits are
  not tracked: \<open>chown\<close> and \<open>chmod\<close> succeed exactly when the file exists. Commands
  fail only for a missing file, transports only for an instance that does not answer.
\<close>

record host =
  files :: "string \<rightharpoonup> string"
  host_oracle_home :: string
  db_sys_password :: string
  loaded_pwfile :: "string option"
  restarts :: nat

text \<open>A path in a command: literal text, or \<open>$ORACLE_HOME\<close> followed by literal text,
  which the remote shell expands.\<close>

datatype rpath = Lit string | Under_oracle_home string

fun expand :: "host \<Rightarrow> rpath \<Rightarrow> string" where
  "expand h (Lit p) = p"
| "expand h (Under_oracle_home p) = host_oracle_home h @ p"

text \<open>
  The shell commands of the credential stages. \<open>Md5sum_awk p\<close> is the pipeline
  \<open>md5sum p | awk '{print $1}'\<close>, \<open>And_then a b\<close> is \<open>a && b\<close>, \<open>Srvctl_restart d\<close>
  is \<open>srvctl stop\<close>, \<open>start\<close> and \<open>status database -d d\<close>, and
  \<open>Sqlplus_restart_mount d\<close> is \<open>SHUTDOWN IMMEDIATE; STARTUP MOUNT;\<close> under
  \<open>ORACLE_SID=d\<close>.
\<close>

datatype sh =
    Echo_oracle_home
  | Md5sum_awk rpath
  | Cp rpath rpath
  | Mv rpath rpath
  | Chmod string rpath
  | Chown string rpath
  | Rm_f rpath
  | Ls_la rpath
  | Source_bash_profile
  | Orapwd rpath string
  | Alter_user_sys string
  | Srvctl_restart string
  | Sqlplus_restart_mount string
  | And_then sh sh

text \<open>
  What lies outside the code: the fingerprint function of \<open>md5sum\<close>, what a transfer
  does to the bytes it carries (the identity for a faithful channel), and the password
  file \<open>orapwd\<close> writes for a password.
\<close>

record outside =
  md5 :: "string \<Rightarrow> string"
  channel :: "string \<Rightarrow> string"
  orapwd_file :: "string \<Rightarrow> string"

text \<open>One command on a host: exit status zero or not, standard output, the host after.\<close>

fun exec_sh :: "outside \<Rightarrow> sh \<Rightarrow> host \<Rightarrow> bool \<times> string \<times> host" where
  "exec_sh E Echo_oracle_home h = (True, host_oracle_home h @ [newline], h)"
| "exec_sh E (Md5sum_awk p) h =
     (case files h (expand h p) of
        None \<Rightarrow> (True, [], h)
      | Some c \<Rightarrow> (True, md5 E c @ [newline], h))"
| "exec_sh E (Cp src dst) h =
     (case files h (expand h src) of
        None \<Rightarrow> (False, [], h)
      | Some c \<Rightarrow> (True, [], h\<lparr>files := (files h)(expand h dst \<mapsto> c)\<rparr>))"
| "exec_sh E (Mv src dst) h =
     (case files h (expand h src) of
        None \<Rightarrow> (False, [], h)
      | Some c \<Rightarrow>
          if expand h src = expand h dst then (False, [], h)
          else (True, [], h\<lparr>files := ((files h)(expand h src := None))(expand h dst \<mapsto> c)\<rparr>))"
| "exec_sh E (Chmod m p) h = (files h (expand h p) \<noteq> None, [], h)"
| "exec_sh E (Chown own p) h = (files h (expand h p) \<noteq> None, [], h)"
| "exec_sh E (Rm_f p) h = (True, [], h\<lparr>files := (files h)(expand h p := None)\<rparr>)"
| "exec_sh E (Ls_la p) h =
     (case files h (expand h p) of
        None \<Rightarrow> (False, [], h)
      | Some c \<Rightarrow> (True, expand h p @ [newline], h))"
| "exec_sh E Source_bash_profile h = (True, [], h)"
| "exec_sh E (Orapwd p password) h =
     (True, [], h\<lparr>files := (files h)(expand h p \<mapsto> orapwd_file E password)\<rparr>)"
| "exec_sh E (Alter_user_sys password) h = (True, [], h\<lparr>db_sys_password := password\<rparr>)"
| "exec_sh E (Srvctl_restart d) h =
     (True, [], h\<lparr>loaded_pwfile := files h (host_oracle_home h @ ''/dbs/orapw'' @ d),
                   restarts := Suc (restarts h)\<rparr>)"
| "exec_sh E (Sqlplus_restart_mount d) h =
     (True, [], h\<lparr>loaded_pwfile := files h (host_oracle_home h @ ''/dbs/orapw'' @ d),
                   restarts := Suc (restarts h)\<rparr>)"
| "exec_sh E (And_then a b) h =
     (case exec_sh E a h of
        (False, out, h') \<Rightarrow> (False, out, h')
      | (True, out, h') \<Rightarrow> (case exec_sh E b h' of (ok, out', h'') \<Rightarrow> (ok, out @ out', h'')))"

text \<open>
  A command text of several lines runs every line in turn, without \<open>set -e\<close>: the exit
  status is that of the last line, the output is all output.
\<close>

fun exec_script :: "outside \<Rightarrow> sh list \<Rightarrow> host \<Rightarrow> bool \<times> string \<times> host" where
  "exec_script E [] h = (True, [], h)"
| "exec_script E [c] h = exec_sh E c h"
| "exec_script E (c # cs) h =
     (case exec_sh E c h of
        (ok, out, h') \<Rightarrow> (case exec_script E cs h' of (ok', out', h'') \<Rightarrow> (ok', out @ out', h'')))"

text \<open>An end of a transfer: a path on the control host, or \<open>instance:path\<close>.\<close>

datatype location = Local string | Remote string string

datatype transport =
    Ssh string string string "sh list"
  | Ssh_capture string string string "sh list"
  | Scp location location string string

text \<open>
  The world: the instances that answer, by name; the files of the control host; and the
  transports used so far, oldest first. An instance that is not in \<open>hosts\<close> cannot be
  reached, and every transport to it exits non-zero.
\<close>

record world =
  hosts :: "string \<rightharpoonup> host"
  local_files :: "string \<rightharpoonup> string"
  trace :: "transport list"

type_synonym 'a action = "world \<Rightarrow> (error + 'a) \<times> world"

text \<open>Sequencing: an exception ends the function and leaves the world as it is then.\<close>

definition bind :: "'a action \<Rightarrow> ('a \<Rightarrow> 'b action) \<Rightarrow> 'b action" where
  "bind m f w = (case m w of (Inl e, w') \<Rightarrow> (Inl e, w') | (Inr x, w') \<Rightarrow> f x w')"

definition return :: "'a \<Rightarrow> 'a action" where
  "return x w = (Inr x, w)"

definition raise :: "error \<Rightarrow> 'a action" where
  "raise e w = (Inl e, w)"

text \<open>\<open>str.strip()\<close> on ASCII text.\<close>

definition is_space :: "char \<Rightarrow> bool" where
  "is_space c = (c \<in> set [CHR 0x09, CHR 0x0A, CHR 0x0B, CHR 0x0C, CHR 0x0D,
                            CHR 0x1C, CHR 0x1D, CHR 0x1E, CHR 0x1F, CHR 0x20])"

definition py_strip :: "string \<Rightarrow> string" where
  "py_strip s = rev (dropWhile is_space (rev (dropWhile is_space s)))"

text \<open>\<open>gcloud_ssh\<close>: \<open>check=True\<close>, so a non-zero exit raises.\<close>

definition gcloud_ssh :: "outside \<Rightarrow> string \<Rightarrow> string \<Rightarrow> string \<Rightarrow> sh list \<Rightarrow> unit action" where
  "gcloud_ssh E instance zone project command w =
     (let w1 = w\<lparr>trace := trace w @ [Ssh instance zone project command]\<rparr>
      in case hosts w instance of
           None \<Rightarrow> (Inl CalledProcessError, w1)
         | Some h \<Rightarrow>
             (case exec_script E command h of
                (ok, out, h') \<Rightarrow>
                  (if ok then Inr () else Inl CalledProcessError,
                   w1\<lparr>hosts := (hosts w)(instance \<mapsto> h')\<rparr>)))"

text \<open>\<open>gcloud_ssh_capture\<close>: the same, returning the stripped standard output.\<close>

definition gcloud_ssh_capture ::
  "outside \<Rightarrow> string \<Rightarrow> string \<Rightarrow> string \<Rightarrow> sh list \<Rightarrow> string action" where
  "gcloud_ssh_capture E instance zone project command w =
     (let w1 = w\<lparr>trace := trace w @ [Ssh_capture instance zone project command]\<rparr>
      in case hosts w instance of
           None \<Rightarrow> (Inl CalledProcessError, w1)
         | Some h \<Rightarrow>
             (case exec_script E command h of
                (ok, out, h') \<Rightarrow>
                  (if ok then Inr (py_strip out) else Inl CalledProcessError,
                   w1\<lparr>hosts := (hosts w)(instance \<mapsto> h')\<rparr>)))"

text \<open>Reading and writing an end of a transfer.\<close>

fun read_location :: "world \<Rightarrow> location \<Rightarrow> string option" where
  "read_location w (Local p) = local_files w p"
| "read_location w (Remote instance p) =
     (case hosts w instance of None \<Rightarrow> None | Some h \<Rightarrow> files h p)"

fun write_location :: "world \<Rightarrow> location \<Rightarrow> string \<Rightarrow> world option" where
  "write_location w (Local p) c = Some (w\<lparr>local_files := (local_files w)(p \<mapsto> c)\<rparr>)"
| "write_location w (Remote instance p) c =
     (case hosts w instance of
        None \<Rightarrow> None
      | Some h \<Rightarrow> Some (w\<lparr>hosts := (hosts w)(instance \<mapsto> h\<lparr>files := (files h)(p \<mapsto> c)\<rparr>)\<rparr>))"

text \<open>\<open>gcloud_scp\<close>: fails when the source cannot be read or the destination cannot be
  reached; otherwise the destination holds what the channel delivered.\<close>

definition gcloud_scp :: "outside \<Rightarrow> location \<Rightarrow> location \<Rightarrow> string \<Rightarrow> string \<Rightarrow> unit action" where
  "gcloud_scp E src dst zone project w =
     (let w1 = w\<lparr>trace := trace w @ [Scp src dst zone project]\<rparr>
      in case read_location w src of
           None \<Rightarrow> (Inl CalledProcessError, w1)
         | Some c \<Rightarrow>
             (case write_location w1 dst (channel E c) of
                None \<Rightarrow> (Inl CalledProcessError, w1)
              | Some w2 \<Rightarrow> (Inr (), w2)))"

section \<open>The credential stages\<close>

subsection \<open>\<open>setup_password_file\<close>\<close>


subsection \<open>\<open>sync_password_file_after_duplication\<close>\<close>

text \<open>The command texts of the stage, named for the statements below.\<close>

definition cmd_copy_to_tmp :: "string \<Rightarrow> string \<Rightarrow> sh list" where
  "cmd_copy_to_tmp orapw_path orapw_file =
     [And_then (Cp (Lit orapw_path) (Lit (''/tmp/'' @ orapw_file)))
               (Chmod ''644'' (Lit (''/tmp/'' @ orapw_file)))]"

definition cmd_move_into_place :: "string \<Rightarrow> string \<Rightarrow> sh list" where
  "cmd_move_into_place orapw_path orapw_file =
     [Mv (Lit (''/tmp/'' @ orapw_file)) (Lit orapw_path),
      Chown ''oracle:oinstall'' (Lit orapw_path),
      Chmod ''640'' (Lit orapw_path)]"

definition sync_password_file_after_duplication ::
  "outside \<Rightarrow> string \<Rightarrow> string \<Rightarrow> string \<Rightarrow> string \<Rightarrow> string \<Rightarrow> unit action" where
  "sync_password_file_after_duplication E primary_instance standby_instance zone project db_name =
     (let orapw_file = ''orapw'' @ db_name in
      bind (gcloud_ssh_capture E primary_instance zone project [Echo_oracle_home]) (\<lambda>oracle_home.
      let orapw_path = oracle_home @ ''/dbs/'' @ orapw_file in
      bind (gcloud_ssh_capture E primary_instance zone project
              [Md5sum_awk (Lit orapw_path)]) (\<lambda>primary_md5.
      bind (gcloud_ssh_capture E standby_instance zone project
              [Md5sum_awk (Lit orapw_path)]) (\<lambda>standby_md5.
      if primary_md5 = standby_md5 then return ()
      else
      bind (gcloud_ssh E primary_instance zone project
              (cmd_copy_to_tmp orapw_path orapw_file)) (\<lambda>_.
      bind (gcloud_scp E (Remote primary_instance (''/tmp/'' @ orapw_file))
              (Local (''/tmp/'' @ orapw_file)) zone project) (\<lambda>_.
      bind (gcloud_scp E (Local (''/tmp/'' @ orapw_file))
              (Remote standby_instance (''/tmp/'' @ orapw_file)) zone project) (\<lambda>_.
      bind (gcloud_ssh E standby_instance zone project
              (cmd_move_into_place orapw_path orapw_file)) (\<lambda>_.
      bind (gcloud_ssh E primary_instance zone project
              [Rm_f (Lit (''/tmp/'' @ orapw_file))]) (\<lambda>_.
      bind (gcloud_ssh_capture E standby_instance zone project
              [Md5sum_awk (Lit orapw_path)]) (\<lambda>new_standby_md5.
      if primary_md5 = new_standby_md5
      then gcloud_ssh E standby_instance zone project [Sqlplus_restart_mount db_name]
      else raise (RuntimeError ''Password file synchronization failed'')))))))))))"

text \<open>The stage from its first fingerprint on, as a function of \<open>orapw_path\<close> and
  \<open>orapw_file\<close>: the same statements, with the path no longer tied to the capture.\<close>

definition sync_steps ::
  "outside \<Rightarrow> string \<Rightarrow> string \<Rightarrow> string \<Rightarrow> string \<Rightarrow> string \<Rightarrow> string \<Rightarrow> string \<Rightarrow> unit action" where
  "sync_steps E primary_instance standby_instance zone project db_name orapw_path orapw_file =
      bind (gcloud_ssh_capture E primary_instance zone project
              [Md5sum_awk (Lit orapw_path)]) (\<lambda>primary_md5.
      bind (gcloud_ssh_capture E standby_instance zone project
              [Md5sum_awk (Lit orapw_path)]) (\<lambda>standby_md5.
      if primary_md5 = standby_md5 then return ()
      else
      bind (gcloud_ssh E primary_instance zone project
              (cmd_copy_to_tmp orapw_path orapw_file)) (\<lambda>_.
      bind (gcloud_scp E (Remote primary_instance (''/tmp/'' @ orapw_file))
              (Local (''/tmp/'' @ orapw_file)) zone project) (\<lambda>_.
      bind (gcloud_scp E (Local (''/tmp/'' @ orapw_file))
              (Remote standby_instance (''/tmp/'' @ orapw_file)) zone project) (\<lambda>_.
      bind (gcloud_ssh E standby_instance zone project
              (cmd_move_into_place orapw_path orapw_file)) (\<lambda>_.
      bind (gcloud_ssh E primary_instance zone project
              [Rm_f (Lit (''/tmp/'' @ orapw_file))]) (\<lambda>_.
      bind (gcloud_ssh_capture E standby_instance zone project
              [Md5sum_awk (Lit orapw_path)]) (\<lambda>new_standby_md5.
      if primary_md5 = new_standby_md5
      then gcloud_ssh E standby_instance zone project [Sqlplus_restart_mount db_name]
      else raise (RuntimeError ''Password file synchronization failed'')))))))))"

text \<open>The fingerprint the stage computes for a file of a host: what
  \<open>gcloud_ssh_capture\<close> returns for the md5sum pipeline, empty when the file is missing.\<close>

definition host_fingerprint :: "outside \<Rightarrow> host \<Rightarrow> string \<Rightarrow> string" where
  "host_fingerprint E h path =
     (case files h path of
        None \<Rightarrow> []
      | Some c \<Rightarrow> py_strip (md5 E c @ [newline]))"

definition fingerprint :: "outside \<Rightarrow> world \<Rightarrow> string \<Rightarrow> string \<Rightarrow> string option" where
  "fingerprint E w instance path =
     (case hosts w instance of
        None \<Rightarrow> None
      | Some h \<Rightarrow> Some (host_fingerprint E h path))"

text \<open>\<open>orapw_path\<close> of the sync stage: the captured \<open>ORACLE_HOME\<close> of the primary,
  then \<open>/dbs/orapw<db_name>\<close>.\<close>

definition orapw_path_of :: "host \<Rightarrow> string \<Rightarrow> string" where
  "orapw_path_of hp db_name =
     py_strip (host_oracle_home hp @ [newline]) @ ''/dbs/'' @ ''orapw'' @ db_name"

fun is_transfer :: "transport \<Rightarrow> bool" where
  "is_transfer (Scp src dst zone project) = True"
| "is_transfer (Ssh instance zone project command) = False"
| "is_transfer (Ssh_capture instance zone project command) = False"



text \<open>Worlds and surroundings for concrete runs: two instances whose password files
  differ (or agree), a faithful channel and one that garbles what it carries.\<close>

definition outside_faithful :: outside where
  "outside_faithful = \<lparr> md5 = (\<lambda>c. c), channel = (\<lambda>c. c), orapwd_file = (\<lambda>pw. ''orapwd:'' @ pw) \<rparr>"

definition outside_garbling :: outside where
  "outside_garbling =
     \<lparr> md5 = (\<lambda>c. c), channel = (\<lambda>c. ''garbled''), orapwd_file = (\<lambda>pw. ''orapwd:'' @ pw) \<rparr>"

definition host_with :: "string \<Rightarrow> host" where
  "host_with c = \<lparr> files = [''/u01/dbs/orapwORA1'' \<mapsto> c], host_oracle_home = ''/u01'',
                   db_sys_password = ''pw'', loaded_pwfile = None, restarts = 0 \<rparr>"


definition world_agree :: world where
  "world_agree = \<lparr> hosts = [''ora-1'' \<mapsto> host_with ''A'', ''ora-2'' \<mapsto> host_with ''A''],
                    local_files = Map.empty, trace = [] \<rparr>"

section \<open>The redo-log repair stage\<close>

subsection \<open>The path classifier of the two cursor queries\<close>

text \<open>
  SQL \<open>LIKE\<close> without an escape character: \<open>%\<close> matches any run of characters,
  \<open>_\<close> any one character, anything else itself. The first argument is the value, the
  second the pattern.
\<close>

fun sql_like :: "string \<Rightarrow> string \<Rightarrow> bool" where
  "sql_like [] [] = True"
| "sql_like (c # s) [] = False"
| "sql_like [] (p # ps) = (p = CHR ''%'' \<and> sql_like [] ps)"
| "sql_like (c # s) (p # ps) =
     (if p = CHR ''%'' then sql_like (c # s) ps \<or> sql_like s (p # ps)
      else if p = CHR ''_'' then sql_like s ps
      else c = p \<and> sql_like s ps)"

text \<open>
  The condition on \<open>f.MEMBER\<close> in the cursor over the groups that are not current
  (lines 676-687); \<open>diskgroup\<close> is interpolated into the second pattern. A member is
  a non-empty text.
\<close>

definition member_invalid :: "string \<Rightarrow> string \<Rightarrow> bool" where
  "member_invalid diskgroup member =
     (\<not> sql_like member ''+%/%''
      \<or> sql_like member (CHR ''+'' # diskgroup)
      \<or> length member < 10)"

text \<open>The condition in the query for the current group (lines 714-724): the same
  without the disk group pattern.\<close>

definition current_member_invalid :: "string \<Rightarrow> bool" where
  "current_member_invalid member =
     (\<not> sql_like member ''+%/%'' \<or> length member < 10)"

text \<open>
  The classifier in the specification's words: a path is invalid when it lacks a \<open>/\<close>
  after the leading \<open>+\<close> pool token, or is the bare \<open>+pool\<close> token, or is shorter
  than ten characters.
\<close>

definition has_separator_after_pool :: "string \<Rightarrow> bool" where
  "has_separator_after_pool path =
     (case path of [] \<Rightarrow> False | c # rest \<Rightarrow> c = CHR ''+'' \<and> CHR ''/'' \<in> set rest)"

definition spec_path_invalid :: "string \<Rightarrow> string \<Rightarrow> bool" where
  "spec_path_invalid pool path =
     (\<not> has_separator_after_pool path \<or> path = CHR ''+'' # pool \<or> length path < 10)"

subsection \<open>The block that recreates the standby redo logs\<close>

text \<open>
  The third PL/SQL block of \<open>fix_standby_redo_logs\<close> (lines 743-781) reads
  \<open>V$LOG\<close> and \<open>V$STANDBY_LOG\<close> and issues \<open>ALTER DATABASE\<close> statements. A row
  is a log group: its number, status, size in bytes and member files.
\<close>

record log_group =
  lg_group :: nat
  lg_status :: string
  lg_bytes :: rat
  lg_members :: "string list"

record database =
  v_log :: "log_group list"
  v_standby_log :: "log_group list"

text \<open>
  The two statements the block builds. The group number of the second is
  \<open>v_max_group + i\<close>, which is \<open>NULL\<close> when \<open>V$LOG\<close> is empty; its size is
  \<open>v_log_size\<close> megabytes.
\<close>

datatype ddl =
    Drop_standby_logfile_group nat
  | Add_standby_logfile_group "nat option" string rat

text \<open>
  The database server is outside the code: \<open>refuses\<close> says which statements it
  answers with an error in which state, for whatever reason of its own, and
  \<open>omf_member\<close> names the file it creates for a group in a disk group.
\<close>

record server =
  refuses :: "ddl \<Rightarrow> database \<Rightarrow> bool"
  omf_member :: "string \<Rightarrow> nat \<Rightarrow> string"

definition group_numbers :: "database \<Rightarrow> nat set" where
  "group_numbers db = lg_group ` set (v_log db) \<union> lg_group ` set (v_standby_log db)"

text \<open>\<open>EXECUTE IMMEDIATE\<close>: \<open>None\<close> is an exception. Dropping a group that is not a
  standby group fails, as does adding a group without a number or with a number in use.\<close>

definition execute_immediate :: "server \<Rightarrow> ddl \<Rightarrow> database \<Rightarrow> database option" where
  "execute_immediate S stmt db =
     (if refuses S stmt db then None
      else case stmt of
        Drop_standby_logfile_group g \<Rightarrow>
          if g \<in> lg_group ` set (v_standby_log db)
          then Some (db\<lparr>v_standby_log := filter (\<lambda>r. lg_group r \<noteq> g) (v_standby_log db)\<rparr>)
          else None
      | Add_standby_logfile_group None diskgroup size_mb \<Rightarrow> None
      | Add_standby_logfile_group (Some g) diskgroup size_mb \<Rightarrow>
          if g \<in> group_numbers db then None
          else Some (db\<lparr>v_standby_log := v_standby_log db @
                  [\<lparr> lg_group = g, lg_status = ''UNASSIGNED'',
                     lg_bytes = size_mb * 1024 * 1024,
                     lg_members = [omf_member S diskgroup g] \<rparr>]\<rparr>))"

text \<open>\<open>BEGIN EXECUTE IMMEDIATE ...; EXCEPTION WHEN OTHERS THEN <print> END\<close>: a failed
  statement changes nothing and the loop goes on.\<close>

definition try_execute :: "server \<Rightarrow> ddl \<Rightarrow> database \<Rightarrow> database" where
  "try_execute S stmt db = (case execute_immediate S stmt db of None \<Rightarrow> db | Some db' \<Rightarrow> db')"

text \<open>SQL \<open>MAX\<close>: \<open>NULL\<close> over no rows.\<close>

fun sql_max :: "'a::linorder list \<Rightarrow> 'a option" where
  "sql_max [] = None"
| "sql_max (x # xs) = Some (fold max xs x)"

text \<open>\<open>v_log_size\<close>: \<open>MAX(BYTES)/1024/1024\<close>, or 100 when that is \<open>NULL\<close> or zero.\<close>

definition v_log_size :: "database \<Rightarrow> rat" where
  "v_log_size db =
     (case sql_max (map lg_bytes (v_log db)) of
        None \<Rightarrow> 100
      | Some b \<Rightarrow> if b / 1024 / 1024 = 0 then 100 else b / 1024 / 1024)"

text \<open>The first loop: every row of \<open>V$STANDBY_LOG\<close>, ordered by group number.\<close>

definition drop_standby_logs :: "server \<Rightarrow> database \<Rightarrow> database" where
  "drop_standby_logs S db =
     fold (\<lambda>g d. try_execute S (Drop_standby_logfile_group g) d)
          (sort (map lg_group (v_standby_log db))) db"

text \<open>The second loop: \<open>FOR i IN 1..(v_online_count + 1)\<close>.\<close>

definition add_standby_logs ::
  "server \<Rightarrow> string \<Rightarrow> nat \<Rightarrow> nat option \<Rightarrow> rat \<Rightarrow> database \<Rightarrow> database" where
  "add_standby_logs S diskgroup v_online_count v_max_group size_mb db =
     fold (\<lambda>i d. try_execute S
                   (Add_standby_logfile_group (map_option (\<lambda>m. m + i) v_max_group)
                      diskgroup size_mb) d)
          [1..<v_online_count + 2] db"

text \<open>The block: the three aggregates are read first, then the two loops run.\<close>

definition recreate_standby_logs :: "server \<Rightarrow> string \<Rightarrow> database \<Rightarrow> database" where
  "recreate_standby_logs S diskgroup db =
     (let v_online_count = length (v_log db);
          v_max_group = sql_max (map lg_group (v_log db));
          size_mb = v_log_size db
      in add_standby_logs S diskgroup v_online_count v_max_group size_mb
           (drop_standby_logs S db))"

text \<open>A server that refuses nothing, and a standby with two online groups of 200 MB and
  a given list of standby group numbers.\<close>

definition willing_server :: server where
  "willing_server = \<lparr> refuses = (\<lambda>stmt db. False),
                       omf_member = (\<lambda>diskgroup g. CHR ''+'' # diskgroup @ ''/onlinelog/group'') \<rparr>"

definition standby_with :: "nat list \<Rightarrow> database" where
  "standby_with gs =
     \<lparr> v_log = [\<lparr> lg_group = 1, lg_status = ''CURRENT'', lg_bytes = 209715200,
                   lg_members = [''+DGORA2/a''] \<rparr>,
                 \<lparr> lg_group = 2, lg_status = ''UNUSED'', lg_bytes = 209715200,
                   lg_members = [''+DGORA2/b''] \<rparr>],
       v_standby_log = map (\<lambda>g. \<lparr> lg_group = g, lg_status = ''UNASSIGNED'',
                                    lg_bytes = 104857600, lg_members = [''+DGORA1''] \<rparr>) gs \<rparr>"

section \<open>setup\_oracle.py: waiting for an instance\<close>








section \<open>Properties of the name resolution\<close>

lemma split_acc_no_sep: "sep \<notin> set s \<Longrightarrow> split_acc sep cur s = [rev cur @ s]"
  by (induction s arbitrary: cur) auto
lemma not_digit_dash: "\<not> is_digit (CHR 0x2D)"
  by (simp add: is_digit_def)
lemma digits_no_dash: "list_all is_digit n \<Longrightarrow> CHR 0x2D \<notin> set n"
  by (induction n) (auto simp: not_digit_dash)
lemma takeWhile_all: "list_all P n \<Longrightarrow> takeWhile P n = n"
  by (induction n) auto
lemma py_split_ora: "list_all is_digit n \<Longrightarrow> py_split (CHR 0x2D) (''ora-'' @ n) = [''ora'', n]"
  by (simp add: py_split_def split_acc_no_sep digits_no_dash)

lemma length_py_split: "length (py_split sep s) = Suc (length (filter (\<lambda>x. x = sep) s))"
proof -
  have "length (split_acc sep cur s) = Suc (length (filter (\<lambda>x. x = sep) s))" for cur
    by (induction s arbitrary: cur) auto
  then show ?thesis by (simp add: py_split_def)
qed

text \<open>An identifier without a hyphen stops \<open>main\<close> with \<open>IndexError\<close>.\<close>

lemma derive_names_no_hyphen:
  "CHR 0x2D \<notin> set primary \<Longrightarrow> derive_names primary standby = Inl IndexError"
  by (simp add: derive_names_def py_split_def split_acc_no_sep index1_def)

text \<open>
  C5. Resolving the identifiers \<open>role-1\<close> and \<open>role-2\<close> does not give the names
  \<open>ROLE1\<close>, \<open>ROLE1\<close>, \<open>ROLE1_STBY\<close>, \<open>POOLROLE1\<close>, \<open>POOLROLE2\<close>: the prefixes of the
  derived names are the constants \<open>ORA\<close> and \<open>DGORA\<close>, never a part of the identifier.
\<close>

theorem role_names_counterexample:
  "resolved_names ''role-1'' ''role-2'' \<noteq>
     Inr (''ROLE1'', ''ROLE1'', ''ROLE1_STBY'', ''POOLROLE1'', ''POOLROLE2'')"
  by (simp add: resolved_names_def derive_names_def py_split_def index1_def)

text \<open>What the code derives there, and what setup\_oracle.py makes of the same identifier.\<close>

lemma role_names_actual:
  "resolved_names ''role-1'' ''role-2'' = Inr (''ORA1'', ''ORA1'', ''ORA1_STBY'', ''DGORA1'', ''DGORA2'')
   \<and> (\<exists>msg. get_db_name ''role-1'' = Inl (ValueError msg))"
  by (simp add: resolved_names_def derive_names_def py_split_def index1_def get_db_name_def parse_instance_number_def)

text \<open>
  C5, as the code has it. For identifiers \<open>ora-n\<close> and \<open>ora-m\<close> with non-empty digit
  strings \<open>n\<close> and \<open>m\<close>, both roles share the database name \<open>ORAn\<close>, the primary unique
  name is that database name, the standby unique name is the database name followed by
  \<open>_STBY\<close>, and each disk group carries its own instance's number: \<open>DGORAn\<close> for the
  primary, \<open>DGORAm\<close> for the standby. The helpers of setup\_oracle.py agree.
\<close>

theorem derive_names_convention:
  assumes "n \<noteq> []" and "list_all is_digit n" and "m \<noteq> []" and "list_all is_digit m"
  shows "resolved_names (''ora-'' @ n) (''ora-'' @ m) =
           Inr (''ORA'' @ n, ''ORA'' @ n, ''ORA'' @ n @ ''_STBY'', ''DGORA'' @ n, ''DGORA'' @ m)
         \<and> get_db_name (''ora-'' @ n) = Inr (''ORA'' @ n)
         \<and> get_cdb_diskgroup_name (''ora-'' @ n) = Inr (''DGORA'' @ n)
         \<and> get_cdb_diskgroup_name (''ora-'' @ m) = Inr (''DGORA'' @ m)"
proof -
  have "resolved_names (''ora-'' @ n) (''ora-'' @ m) =
           Inr (''ORA'' @ n, ''ORA'' @ n, ''ORA'' @ n @ ''_STBY'', ''DGORA'' @ n, ''DGORA'' @ m)"
    using assms(2,4) by (simp only: resolved_names_def derive_names_def py_split_ora) (simp add: index1_def)
  moreover have "parse_instance_number (''ora-'' @ n) = Inr n"
    using assms(1,2) by (simp add: parse_instance_number_def takeWhile_all)
  moreover have "parse_instance_number (''ora-'' @ m) = Inr m"
    using assms(3,4) by (simp add: parse_instance_number_def takeWhile_all)
  ultimately show ?thesis
    by (simp add: get_db_name_def get_cdb_diskgroup_name_def)
qed

theorem derive_names_convention_witness:
  "resolved_names ''ora-1'' ''ora-2'' = Inr (''ORA1'', ''ORA1'', ''ORA1_STBY'', ''DGORA1'', ''DGORA2'')
   \<and> get_db_name ''ora-1'' = Inr ''ORA1''"
  using derive_names_convention [of "''1''" "''2''"] by (simp add: is_digit_def)

text \<open>
  C6. \<open>main\<close> of setup\_dataguard.py does not check the identifier against
  \<open>ora-<number>\<close>: for the primary \<open>db-x\<close>, which \<open>parse_instance_number\<close> of
  setup\_oracle.py rejects, the run resolves the database name \<open>ORAx\<close> and goes on to
  every stage.
\<close>

theorem main_accepts_nonconforming_identifier:
  "(parse_instance_number ''db-x'' =
      Inl (ValueError (''Instance name 'db-x' must match pattern 'ora-<number>'' @ [CHR 0x27])))
   \<and> fst (main env_all_ok args_db_x) = Inr ()
   \<and> Stage ''configure_bash_profiles'' [''db-x'', ''z'', ''p''] \<in> set (snd (main env_all_ok args_db_x))
   \<and> Stage ''enable_log_shipping'' [''db-x'', ''z'', ''p'', ''10.0.0.5'', ''ORAx'', ''ORAx_STBY'']
        \<in> set (snd (main env_all_ok args_db_x))"
  by (simp add: parse_instance_number_def main_def env_all_ok_def args_db_x_def arg_or_config_def
      derive_names_def py_split_def index1_def main_stages_def Let_def)

text \<open>The part of C6 about project and zone: an empty project or zone ends \<open>main\<close> with
  \<open>sys.exit(1)\<close> after local configuration reads only.\<close>

lemma arg_or_config_local:
  "arg_or_config e a key = (res, t) \<Longrightarrow> c \<in> set t \<Longrightarrow> \<not> is_remote_mutation c"
  by (auto simp: arg_or_config_def split: option.splits if_splits)

lemma main_exits_without_project_or_zone:
  assumes "arg_or_config e (arg_project a) ''project'' = (Inr project, t1)"
    and "arg_or_config e (arg_zone a) ''compute/zone'' = (Inr zone, t2)"
    and "project = [] \<or> zone = []"
  shows "main e a = (Inl (SystemExit 1), t1 @ t2)
         \<and> (\<forall>c \<in> set (t1 @ t2). \<not> is_remote_mutation c)"
proof -
  have "main e a = (Inl (SystemExit 1), t1 @ t2)"
    using assms by (auto simp: main_def)
  moreover have "\<forall>c \<in> set (t1 @ t2). \<not> is_remote_mutation c"
    using assms(1,2) by (auto dest: arg_or_config_local)
  ultimately show ?thesis by simp
qed

section \<open>Properties of the command payloads\<close>



section \<open>Properties of the credential stages\<close>

lemma sync_unfold:
  "sync_password_file_after_duplication E p s z pr db =
     bind (gcloud_ssh_capture E p z pr [Echo_oracle_home])
       (\<lambda>oh. sync_steps E p s z pr db (oh @ ''/dbs/'' @ ''orapw'' @ db) (''orapw'' @ db))"
  unfolding sync_password_file_after_duplication_def sync_steps_def Let_def by (rule refl)

lemma capture_echo:
  "hosts w i = Some h \<Longrightarrow>
   gcloud_ssh_capture E i z p [Echo_oracle_home] w =
     (Inr (py_strip (host_oracle_home h @ [newline])),
      w\<lparr>trace := trace w @ [Ssh_capture i z p [Echo_oracle_home]]\<rparr>)"
  by (simp add: gcloud_ssh_capture_def Let_def map_upd_triv)

lemma py_strip_Nil: "py_strip [] = []"
  by (simp add: py_strip_def)

lemma capture_md5:
  "hosts w i = Some h \<Longrightarrow>
   gcloud_ssh_capture E i z p [Md5sum_awk (Lit path)] w =
     (Inr (host_fingerprint E h path),
      w\<lparr>trace := trace w @ [Ssh_capture i z p [Md5sum_awk (Lit path)]]\<rparr>)"
  by (simp add: gcloud_ssh_capture_def host_fingerprint_def Let_def map_upd_triv py_strip_Nil
      split: option.splits)

lemma ssh_run:
  "hosts w i = Some h \<Longrightarrow> exec_script E cmds h = (ok, out, h') \<Longrightarrow>
   gcloud_ssh E i z p cmds w =
     (if ok then Inr () else Inl CalledProcessError,
      w\<lparr>trace := trace w @ [Ssh i z p cmds], hosts := (hosts w)(i \<mapsto> h')\<rparr>)"
  by (simp add: gcloud_ssh_def Let_def)

lemma scp_download:
  "hosts w i = Some h \<Longrightarrow> files h a = Some c \<Longrightarrow>
   gcloud_scp E (Remote i a) (Local b) z p w =
     (Inr (), w\<lparr>trace := trace w @ [Scp (Remote i a) (Local b) z p],
                 local_files := (local_files w)(b \<mapsto> channel E c)\<rparr>)"
  by (simp add: gcloud_scp_def Let_def)

lemma scp_upload:
  "hosts w i = Some h \<Longrightarrow> local_files w a = Some c \<Longrightarrow>
   gcloud_scp E (Local a) (Remote i b) z p w =
     (Inr (), w\<lparr>trace := trace w @ [Scp (Local a) (Remote i b) z p],
                 hosts := (hosts w)(i \<mapsto> h\<lparr>files := (files h)(b \<mapsto> channel E c)\<rparr>)\<rparr>)"
  by (simp add: gcloud_scp_def Let_def)








lemma sync_steps_equal:
  assumes hp: "hosts w p = Some hp" and hs: "hosts w s = Some hs"
    and same: "host_fingerprint E hp path = host_fingerprint E hs path"
  shows "sync_steps E p s z pr db path f w =
       (Inr (),
        w\<lparr>trace := trace w @
         [Ssh_capture p z pr [Md5sum_awk (Lit path)],
          Ssh_capture s z pr [Md5sum_awk (Lit path)]]\<rparr>)"
  using hp hs same
  by (simp add: sync_steps_def bind_def return_def capture_md5)



lemma sync_with_hosts:
  assumes hp: "hosts w p = Some hp"
  shows "sync_password_file_after_duplication E p s z pr db w =
     sync_steps E p s z pr db (orapw_path_of hp db) (''orapw'' @ db)
       (w\<lparr>trace := trace w @ [Ssh_capture p z pr [Echo_oracle_home]]\<rparr>)"
  using hp by (simp add: sync_unfold bind_def capture_echo orapw_path_of_def)


lemma fingerprint_host: "hosts w i = Some h \<Longrightarrow> fingerprint E w i path = Some (host_fingerprint E h path)"
  by (simp add: fingerprint_def)

text \<open>
  C1. When both instances answer and the two fingerprints the stage computes are equal,
  the stage returns after the \<open>ORACLE_HOME\<close> query and the two fingerprint
  computations: three captured read-only commands, no transfer, and the instances and
  the control host's files are as before.
\<close>

theorem sync_equal_fingerprints_no_action:
  assumes hp: "hosts w primary_instance = Some hp"
    and hs: "hosts w standby_instance = Some hs"
    and same: "fingerprint E w primary_instance (orapw_path_of hp db_name)
               = fingerprint E w standby_instance (orapw_path_of hp db_name)"
  shows "\<exists>w'. sync_password_file_after_duplication E primary_instance standby_instance
                 zone project db_name w = (Inr (), w')
     \<and> hosts w' = hosts w \<and> local_files w' = local_files w
     \<and> trace w' = trace w @
          [Ssh_capture primary_instance zone project [Echo_oracle_home],
           Ssh_capture primary_instance zone project
             [Md5sum_awk (Lit (orapw_path_of hp db_name))],
           Ssh_capture standby_instance zone project
             [Md5sum_awk (Lit (orapw_path_of hp db_name))]]
     \<and> \<not> list_ex is_transfer (drop (length (trace w)) (trace w'))"
proof -
  let ?w1 = "w\<lparr>trace := trace w @ [Ssh_capture primary_instance zone project [Echo_oracle_home]]\<rparr>"
  have eq: "host_fingerprint E hp (orapw_path_of hp db_name)
            = host_fingerprint E hs (orapw_path_of hp db_name)"
    using same hp hs by (simp add: fingerprint_host)
  have "hosts ?w1 primary_instance = Some hp" and "hosts ?w1 standby_instance = Some hs"
    using hp hs by simp_all
  then have "sync_steps E primary_instance standby_instance zone project db_name
               (orapw_path_of hp db_name) (''orapw'' @ db_name) ?w1
             = (Inr (), ?w1\<lparr>trace := trace ?w1 @
                 [Ssh_capture primary_instance zone project
                    [Md5sum_awk (Lit (orapw_path_of hp db_name))],
                  Ssh_capture standby_instance zone project
                    [Md5sum_awk (Lit (orapw_path_of hp db_name))]]\<rparr>)"
    using eq by (rule sync_steps_equal)
  then show ?thesis
    by (simp add: sync_with_hosts [OF hp])
qed

lemma world_agree_path: "orapw_path_of (host_with c) ''ORA1'' = ''/u01/dbs/orapwORA1''"
  by (simp add: orapw_path_of_def host_with_def py_strip_def is_space_def newline_def)

theorem sync_equal_fingerprints_no_action_witness:
  "\<exists>w'. sync_password_file_after_duplication outside_faithful ''ora-1'' ''ora-2''
                 ''z'' ''p'' ''ORA1'' world_agree = (Inr (), w')
     \<and> hosts w' = hosts world_agree \<and> local_files w' = local_files world_agree
     \<and> trace w' = 
          [Ssh_capture ''ora-1'' ''z'' ''p'' [Echo_oracle_home],
           Ssh_capture ''ora-1'' ''z'' ''p'' [Md5sum_awk (Lit ''/u01/dbs/orapwORA1'')],
           Ssh_capture ''ora-2'' ''z'' ''p'' [Md5sum_awk (Lit ''/u01/dbs/orapwORA1'')]]"
proof -
  have hp: "hosts world_agree ''ora-1'' = Some (host_with ''A'')"
    and hs: "hosts world_agree ''ora-2'' = Some (host_with ''A'')"
    by (simp_all add: world_agree_def)
  have same: "fingerprint outside_faithful world_agree ''ora-1'' (orapw_path_of (host_with ''A'') ''ORA1'')
      = fingerprint outside_faithful world_agree ''ora-2'' (orapw_path_of (host_with ''A'') ''ORA1'')"
    by (simp add: fingerprint_def world_agree_def)
  show ?thesis
    using sync_equal_fingerprints_no_action [OF hp hs same, of "''z''" "''p''"]
    by (auto simp: world_agree_path world_agree_def)
qed










lemma concrete_outside [simp]:
  "channel outside_faithful c = c" "md5 outside_faithful c = c"
  "orapwd_file outside_faithful pw = ''orapwd:'' @ pw"
  "channel outside_garbling c = ''garbled''" "md5 outside_garbling c = c"
  by (simp_all add: outside_faithful_def outside_garbling_def)

lemma host_with_file [simp]:
  "files (host_with c) ''/u01/dbs/orapwORA1'' = Some c" "restarts (host_with c) = 0"
  by (simp_all add: host_with_def)





section \<open>Properties of the redo-log repair stage\<close>

lemma like_percent: "sql_like s ''%''"
  by (induction s) auto

lemma like_slash_percent: "sql_like s ''/%'' \<longleftrightarrow> (\<exists>t. s = CHR ''/'' # t)"
  by (cases s) (auto simp: like_percent)

lemma like_percent_slash_percent: "sql_like s ''%/%'' \<longleftrightarrow> CHR ''/'' \<in> set s"
proof (induction s)
  case Nil
  show ?case by simp
next
  case (Cons c s)
  have "sql_like (c # s) ''%/%'' \<longleftrightarrow> sql_like (c # s) ''/%'' \<or> sql_like s ''%/%''"
    by simp
  also have "\<dots> \<longleftrightarrow> c = CHR ''/'' \<or> CHR ''/'' \<in> set s"
    using Cons.IH like_slash_percent [of "c # s"] by auto
  finally show ?case by auto
qed

lemma like_full_path: "sql_like s ''+%/%'' \<longleftrightarrow> has_separator_after_pool s"
proof (cases s)
  case Nil
  then show ?thesis by (simp add: has_separator_after_pool_def)
next
  case (Cons c t)
  have "sql_like (c # t) ''+%/%'' \<longleftrightarrow> c = CHR ''+'' \<and> sql_like t ''%/%''"
    by simp
  with Cons show ?thesis
    by (simp only: like_percent_slash_percent has_separator_after_pool_def list.case)
qed




text \<open>The query for the current group agrees with it for a pool name without \<open>/\<close>.\<close>

lemma current_member_invalid_agrees:
  assumes "CHR ''/'' \<notin> set pool"
  shows "current_member_invalid path \<longleftrightarrow> spec_path_invalid pool path"
proof -
  have "\<not> has_separator_after_pool (CHR ''+'' # pool)"
    using assms by (simp add: has_separator_after_pool_def)
  then show ?thesis
    by (auto simp only: current_member_invalid_def spec_path_invalid_def like_full_path)
qed

text \<open>Every disk group name \<open>DGORA<digits>\<close> that the workflow derives is free of
  wildcards and separators; a pattern with a wildcard matches more than the bare token.\<close>

lemma derived_diskgroup_plain:
  assumes "list_all is_digit num"
  shows "CHR ''%'' \<notin> set (''DGORA'' @ num) \<and> CHR ''_'' \<notin> set (''DGORA'' @ num)
         \<and> CHR ''/'' \<notin> set (''DGORA'' @ num)"
proof -
  have "\<not> is_digit (CHR ''%'')" "\<not> is_digit (CHR ''_'')" "\<not> is_digit (CHR ''/'')"
    by (simp_all add: is_digit_def)
  then have "CHR ''%'' \<notin> set num \<and> CHR ''_'' \<notin> set num \<and> CHR ''/'' \<notin> set num"
    using assms by (auto simp: list_all_iff)
  then show ?thesis by simp
qed

lemma member_invalid_wildcard_pool:
  "member_invalid ''DGORA%'' ''+DGORA1/onlinelog/group_1''
   \<and> \<not> spec_path_invalid ''DGORA%'' ''+DGORA1/onlinelog/group_1''"
  by (simp add: member_invalid_def spec_path_invalid_def has_separator_after_pool_def)

section \<open>Properties of the wait for an instance\<close>











section \<open>Properties of the standby redo log block\<close>









text \<open>With two online groups: no, two and four standby groups before the block.\<close>

lemma recreate_standby_logs_examples:
  "map lg_group (v_standby_log (recreate_standby_logs willing_server ''DGORA2'' (standby_with [])))
     = [3, 4, 5]"
  "map lg_group (v_standby_log (recreate_standby_logs willing_server ''DGORA2'' (standby_with [3, 4])))
     = [3, 4, 5]"
  "map lg_bytes (v_standby_log (recreate_standby_logs willing_server ''DGORA2''
       (standby_with [7, 8, 9, 10]))) = [209715200, 209715200, 209715200]"
  by code_simp+


end
